theory Spec2Isabelle
  imports Complex_Main
begin

section \<open>Data model (types/MoviesType.ts)\<close>

text \<open>
  A JavaScript \<open>number\<close> is an IEEE binary64 value. Every finite one is a rational, and
  \<open>Num r\<close> stands for the number whose exact value is \<open>r\<close> (\<open>+0\<close> and \<open>-0\<close> are both
  \<open>Num 0\<close>: the code below never tells them apart). The three values that are not
  finite are constructors of their own.
\<close>

datatype number = Num rat | NaN | PosInfinity | NegInfinity

text \<open>
  The type \<open>Movie\<close>, field by field. \<open>id\<close> is written \<open>id'\<close> (HOL has a constant
  \<open>id\<close>). \<open>poster_path\<close> and \<open>backdrop_path\<close> are \<open>string | null\<close>: \<open>None\<close> is \<open>null\<close>.
  The records come from parsed JSON, where a field can be missing whatever the declared
  type says, and the card tests \<open>vote_average\<close> and \<open>release_date\<close> for presence: for these
  two \<open>None\<close> is the absent field (\<open>undefined\<close> or \<open>null\<close>). Identifiers and counters are
  whole numbers: a \<open>number\<close> that holds a whole number is modelled by that \<open>int\<close>, and
  arithmetic on it rounds as binary64 arithmetic does (\<open>number_add\<close> below).
\<close>

record Movie =
  id' :: int
  title :: string
  adult :: bool
  backdrop_path :: "string option"
  genre_ids :: "int list"
  original_language :: string
  original_title :: string
  overview :: string
  popularity :: number
  poster_path :: "string option"
  release_date :: "string option"
  video :: bool
  vote_average :: "number option"
  vote_count :: int

record TrendingMovies =
  id' :: int
  count :: int
  poster_url :: string
  searchTerm :: string
  title :: string

section \<open>JavaScript primitives the code relies on\<close>

text \<open>Truthiness, as the conditional operator \<open>c ? a : b\<close> tests it.\<close>

fun truthy_string :: "string option \<Rightarrow> bool" where
  "truthy_string None = False"
| "truthy_string (Some s) = (s \<noteq> [])"

fun truthy_number :: "number option \<Rightarrow> bool" where
  "truthy_number None = False"
| "truthy_number (Some (Num r)) = (r \<noteq> 0)"
| "truthy_number (Some NaN) = False"
| "truthy_number (Some PosInfinity) = True"
| "truthy_number (Some NegInfinity) = True"

text \<open>A value of type \<open>string | null\<close> inside a template literal: \<open>null\<close> prints as \<open>null\<close>.\<close>

fun template_string :: "string option \<Rightarrow> string" where
  "template_string None = ''null''"
| "template_string (Some s) = s"

text \<open>
  \<open>String.prototype.split\<close> with a separator of one character and no limit: the pieces
  between the separators, in order; the empty string gives one empty piece.
\<close>

fun split_string :: "char \<Rightarrow> string \<Rightarrow> string list" where
  "split_string sep [] = [[]]"
| "split_string sep (c # cs) =
     (if c = sep then [] # split_string sep cs
      else (case split_string sep cs of
              [] \<Rightarrow> [[c]]
            | w # ws \<Rightarrow> (c # w) # ws))"

text \<open>
  Reading index 0 of an array gives \<open>undefined\<close> on the empty array, and React renders
  \<open>undefined\<close> as no text.
\<close>

fun index0_text :: "string list \<Rightarrow> string" where
  "index0_text [] = []"
| "index0_text (w # ws) = w"

text \<open>The decimal digits of a natural number, most significant first; \<open>0\<close> is \<open>''0''\<close>.\<close>

definition digit_char :: "nat \<Rightarrow> char" where
  "digit_char d = ''0123456789'' ! d"

fun digits :: "nat \<Rightarrow> string" where
  "digits n = (if n < 10 then [digit_char n] else digits (n div 10) @ [digit_char (n mod 10)])"

text \<open>
  The operator \<open>+\<close> on two numbers that hold whole numbers: the exact sum, rounded to the
  nearest binary64 value, on a tie to the one whose 53-bit significand is even. A whole
  number of magnitude up to \<open>2^53\<close> is a binary64 value as it stands; a larger one of
  \<open>L\<close> bits keeps its 53 leading bits, in units of \<open>2^(L - 53)\<close>. (The sum of two counts is
  far from the largest finite number, where the runtime would give \<open>Infinity\<close>.)
\<close>

fun bit_length :: "nat \<Rightarrow> nat" where
  "bit_length n = (if n = 0 then 0 else Suc (bit_length (n div 2)))"

definition round_binary64 :: "int \<Rightarrow> int" where
  "round_binary64 n =
     (let m = nat \<bar>n\<bar> in
      if m \<le> 2 ^ 53 then n
      else
        (let u = 2 ^ (bit_length m - 53);
             q = m div u;
             r = m mod u;
             k = (if 2 * r < u then q
                  else if u < 2 * r then q + 1
                  else if even q then q else q + 1)
         in sgn n * int (k * u)))"

definition number_add :: "int \<Rightarrow> int \<Rightarrow> int" where
  "number_add a b = round_binary64 (a + b)"

text \<open>
  \<open>Number.prototype.toFixed\<close> at one fraction digit, the only way the card calls it,
  step by step as ECMA-262 gives it: a value that is not finite prints as its name;
  otherwise the sign is split off, and below \<open>10^21\<close> the integer \<open>n\<close> nearest to ten times
  the magnitude (the larger one on a tie) is printed with a point before its last digit,
  padded to two digits. From \<open>10^21\<close> on the standard prints the magnitude with
  \<open>Number::toString\<close>, whose shortest round-trip digits depend on the binary64 format:
  that printer is the parameter \<open>toString\<close>.
\<close>

definition toFixed1 :: "(rat \<Rightarrow> string) \<Rightarrow> number \<Rightarrow> string" where
  "toFixed1 toString v =
     (case v of
        NaN \<Rightarrow> ''NaN''
      | PosInfinity \<Rightarrow> ''Infinity''
      | NegInfinity \<Rightarrow> ''-Infinity''
      | Num r \<Rightarrow>
          (let s = (if r < 0 then ''-'' else []);
               x = \<bar>r\<bar>
           in if 10 ^ 21 \<le> x then s @ toString x
              else
                (let n = nat \<lfloor>x * 10 + 1 / 2\<rfloor>;
                     m0 = digits n;
                     m = (if length m0 \<le> 1 then ''0'' @ m0 else m0);
                     k = length m
                 in s @ take (k - 1) m @ ''.'' @ drop (k - 1) m)))"

section \<open>The movie card (components/MovieCard.tsx)\<close>

text \<open>
  The component is a pure function of the movie. Its result is the rendered element,
  kept here as the texts and attributes that depend on the movie: the image's \<open>src\<close> and
  \<open>alt\<close>, the heading, and the three paragraphs \<open>rating\<close>, \<open>lang\<close> and \<open>year\<close>.
\<close>

record movie_card =
  img_src :: string
  img_alt :: string
  h3 :: string
  rating :: string
  lang :: string
  year :: string

definition MovieCard :: "(rat \<Rightarrow> string) \<Rightarrow> Movie \<Rightarrow> movie_card" where
  "MovieCard toString movie =
     \<lparr> img_src =
         (if truthy_string (poster_path movie)
          then ''https://image.tmdb.org/t/p/w500'' @ template_string (poster_path movie)
          else ''/no-movie.png''),
       img_alt = Movie.title movie,
       h3 = Movie.title movie,
       rating =
         (if truthy_number (vote_average movie)
          then (case vote_average movie of
                  Some v \<Rightarrow> toFixed1 toString v
                | None \<Rightarrow> [])
          else ''N/A''),
       lang = original_language movie,
       year =
         (if truthy_string (release_date movie)
          then (case release_date movie of
                  Some d \<Rightarrow> index0_text (split_string CHR ''-'' d)
                | None \<Rightarrow> [])
          else ''N/A'') \<rparr>"

section \<open>The hosted document database, as the code sees it\<close>

text \<open>
  A thrown value. Every remote call either returns or throws; the model writes a call's
  result as a sum, \<open>Inl\<close> the exception.
\<close>

datatype error = Exception string

text \<open>
  A stored counter document: its identifier \<open>$id\<close> (\<open>dollar_id\<close>), the attributes the
  create path writes, and \<open>lastSearchedMovie\<close>, which only the update path writes
  (\<open>None\<close> until then).
\<close>

record document =
  dollar_id :: string
  searchTerm :: string
  count :: int
  movie_id :: int
  poster_url :: string
  title :: string
  lastSearchedMovie :: "Movie option"

text \<open>The three queries the code builds: \<open>Query.equal\<close>, \<open>Query.orderDesc\<close>, \<open>Query.limit\<close>.\<close>

datatype query = Equal string string | OrderDesc string | Limit nat

text \<open>The object literals passed to \<open>updateDocument\<close> and \<open>createDocument\<close>.\<close>

record update_data =
  count :: int
  lastSearchedMovie :: Movie

record create_data =
  searchTerm :: string
  count :: int
  movie_id :: int
  poster_url :: string
  title :: string

text \<open>
  The three methods of the SDK's \<open>Databases\<close> object that the module calls, on the one
  database and collection the environment configures. The service is not part of the
  repository, so it is a parameter: any state type \<open>'s\<close> and any three functions. A call
  may throw, and may change the remote state whether it throws or not.
\<close>

record 's databases =
  listDocuments :: "query list \<Rightarrow> 's \<Rightarrow> (error + document list) \<times> 's"
  updateDocument :: "string \<Rightarrow> update_data \<Rightarrow> 's \<Rightarrow> (error + document) \<times> 's"
  createDocument :: "string \<Rightarrow> create_data \<Rightarrow> 's \<Rightarrow> (error + document) \<times> 's"

text \<open>
  How an \<open>async\<close> function ends, as its caller sees it: the promise is rejected with the
  exception that escaped the function, or fulfilled with the value it returned.
\<close>

datatype 'a promise = Fulfilled 'a | Rejected error

fun settle :: "error + 'a \<Rightarrow> 'a promise" where
  "settle (Inl e) = Rejected e"
| "settle (Inr v) = Fulfilled v"

text \<open>\<open>console.error\<close> appends its two arguments to the diagnostic log and returns.\<close>

type_synonym console = "(string \<times> error) list"

fun console_error :: "string \<Rightarrow> error \<Rightarrow> console \<Rightarrow> console" where
  "console_error label e con = con @ [(label, e)]"

section \<open>The data-access module (lib/appwrite.ts)\<close>

text \<open>
  The body of the \<open>try\<close> block of \<open>updateSearchCount\<close>: an exception of a remote call ends
  it at once. \<open>unique\<close> is the identifier \<open>ID.unique()\<close> returns on this call.
\<close>

definition updateSearchCount_try ::
  "'s databases \<Rightarrow> string \<Rightarrow> string \<Rightarrow> Movie \<Rightarrow> 's \<Rightarrow> (error + unit) \<times> 's" where
  "updateSearchCount_try db unique term movie s =
     (case listDocuments db [Equal ''searchTerm'' term] s of
        (Inl e, s1) \<Rightarrow> (Inl e, s1)
      | (Inr documents, s1) \<Rightarrow>
          (case documents of
             doc # rest \<Rightarrow>
               (case updateDocument db (dollar_id doc)
                       \<lparr> update_data.count = number_add (document.count doc) 1,
                         lastSearchedMovie = movie \<rparr> s1 of
                  (Inl e, s2) \<Rightarrow> (Inl e, s2)
                | (Inr updated, s2) \<Rightarrow> (Inr (), s2))
           | [] \<Rightarrow>
               (case createDocument db unique
                       \<lparr> create_data.searchTerm = term,
                         count = 1,
                         movie_id = Movie.id' movie,
                         poster_url =
                           ''https://image.tmdb.org/t/p/w500''
                             @ template_string (poster_path movie),
                         title = Movie.title movie \<rparr> s1 of
                  (Inl e, s2) \<Rightarrow> (Inl e, s2)
                | (Inr created, s2) \<Rightarrow> (Inr (), s2))))"

text \<open>
  The whole function. After the \<open>try\<close> block, and after the \<open>catch\<close> clause, which logs
  the exception, the function ends without a \<open>return\<close>: it returns \<open>undefined\<close>, here \<open>()\<close>.
\<close>

fun updateSearchCount ::
  "'s databases \<Rightarrow> string \<Rightarrow> string \<Rightarrow> Movie \<Rightarrow> 's \<times> console
     \<Rightarrow> unit promise \<times> 's \<times> console" where
  "updateSearchCount db unique term movie (s, con) =
     (case updateSearchCount_try db unique term movie s of
        (Inr u, s') \<Rightarrow> (settle (Inr ()), s', con)
      | (Inl e, s') \<Rightarrow>
          (settle (Inr ()), s', console_error ''Error updating search count:'' e con))"

text \<open>
  \<open>getTrendingMovies\<close>: the listing and the mapping of each stored document to the
  display type are the \<open>try\<close> block; the \<open>catch\<close> clause logs and returns the empty list.
\<close>

definition to_trending :: "document \<Rightarrow> TrendingMovies" where
  "to_trending doc =
     \<lparr> TrendingMovies.id' = document.movie_id doc,
       count = document.count doc,
       poster_url = document.poster_url doc,
       searchTerm = document.searchTerm doc,
       title = document.title doc \<rparr>"

fun getTrendingMovies ::
  "'s databases \<Rightarrow> 's \<times> console \<Rightarrow> TrendingMovies list promise \<times> 's \<times> console" where
  "getTrendingMovies db (s, con) =
     (case listDocuments db [OrderDesc ''count'', Limit 5] s of
        (Inr documents, s') \<Rightarrow> (settle (Inr (map to_trending documents)), s', con)
      | (Inl e, s') \<Rightarrow>
          (settle (Inr []), s', console_error ''Error fetching trending movies:'' e con))"

section \<open>A reference behaviour of the hosted collection\<close>

text \<open>
  Modelled from the spec: the hosted document database is an external service, none of
  whose code is in the repository. The spec names what the module consumes of it:
  listing documents filtered and sorted by a field, and creating and updating a document
  by its identifier; the details below are the service's documented behaviour. The
  collection is the list of its documents in creation order.

  A listing keeps the documents that satisfy every \<open>Equal\<close> query, sorts them by the
  \<open>OrderDesc\<close> queries (the first one given is the primary key; the sort is stable, so
  ties keep creation order) and cuts the result at the first \<open>Limit\<close>, or at the
  service's page size of 25 when there is none. \<open>Equal\<close> compares a text attribute,
  \<open>OrderDesc\<close> sorts by a whole-number attribute; a query on any other attribute name is
  refused with an exception.
\<close>

definition string_attribute :: "string \<Rightarrow> (document \<Rightarrow> string) option" where
  "string_attribute a =
     (if a = ''$id'' then Some dollar_id
      else if a = ''searchTerm'' then Some document.searchTerm
      else if a = ''poster_url'' then Some document.poster_url
      else if a = ''title'' then Some document.title
      else None)"

definition integer_attribute :: "string \<Rightarrow> (document \<Rightarrow> int) option" where
  "integer_attribute a =
     (if a = ''count'' then Some document.count
      else if a = ''movie_id'' then Some document.movie_id
      else None)"

fun valid_query :: "query \<Rightarrow> bool" where
  "valid_query (Equal a v) = (string_attribute a \<noteq> None)"
| "valid_query (OrderDesc a) = (integer_attribute a \<noteq> None)"
| "valid_query (Limit n) = True"

fun selected :: "query list \<Rightarrow> document \<Rightarrow> bool" where
  "selected [] d = True"
| "selected (Equal a v # qs) d =
     ((case string_attribute a of Some f \<Rightarrow> f d = v | None \<Rightarrow> False) \<and> selected qs d)"
| "selected (q # qs) d = selected qs d"

fun ordered :: "query list \<Rightarrow> document list \<Rightarrow> document list" where
  "ordered [] ds = ds"
| "ordered (OrderDesc a # qs) ds =
     (case integer_attribute a of
        Some f \<Rightarrow> sort_key (\<lambda>d. - f d) (ordered qs ds)
      | None \<Rightarrow> ordered qs ds)"
| "ordered (q # qs) ds = ordered qs ds"

fun page_limit :: "query list \<Rightarrow> nat" where
  "page_limit [] = 25"
| "page_limit (Limit n # qs) = n"
| "page_limit (q # qs) = page_limit qs"

definition collection_list ::
  "query list \<Rightarrow> document list \<Rightarrow> (error + document list) \<times> document list" where
  "collection_list qs ds =
     (if list_all valid_query qs
      then (Inr (take (page_limit qs) (ordered qs (filter (selected qs) ds))), ds)
      else (Inl (Exception ''Invalid query''), ds))"

text \<open>
  An update changes the attributes it is given, in the document with that identifier,
  and answers with the document as stored; an unknown identifier is an exception.
\<close>

definition apply_update :: "update_data \<Rightarrow> document \<Rightarrow> document" where
  "apply_update data d =
     d\<lparr> document.count := update_data.count data,
        document.lastSearchedMovie := Some (update_data.lastSearchedMovie data) \<rparr>"

definition collection_update ::
  "string \<Rightarrow> update_data \<Rightarrow> document list \<Rightarrow> (error + document) \<times> document list" where
  "collection_update ident data ds =
     (case find (\<lambda>d. dollar_id d = ident) ds of
        None \<Rightarrow> (Inl (Exception ''Document not found''), ds)
      | Some d \<Rightarrow>
          (Inr (apply_update data d),
           map (\<lambda>x. if dollar_id x = ident then apply_update data x else x) ds))"

text \<open>
  A creation stores a new document with the given identifier and attributes after the
  existing ones; an identifier already in use is an exception.
\<close>

definition new_document :: "string \<Rightarrow> create_data \<Rightarrow> document" where
  "new_document ident data =
     \<lparr> dollar_id = ident,
       searchTerm = create_data.searchTerm data,
       count = create_data.count data,
       movie_id = create_data.movie_id data,
       poster_url = create_data.poster_url data,
       title = create_data.title data,
       lastSearchedMovie = None \<rparr>"

definition collection_create ::
  "string \<Rightarrow> create_data \<Rightarrow> document list \<Rightarrow> (error + document) \<times> document list" where
  "collection_create ident data ds =
     (if list_ex (\<lambda>d. dollar_id d = ident) ds
      then (Inl (Exception ''Document already exists''), ds)
      else (Inr (new_document ident data), ds @ [new_document ident data]))"

definition collection :: "document list databases" where
  "collection =
     \<lparr> listDocuments = collection_list,
       updateDocument = collection_update,
       createDocument = collection_create \<rparr>"

text \<open>A service that cannot be reached: every call throws.\<close>

definition unreachable :: "unit databases" where
  "unreachable =
     \<lparr> listDocuments = (\<lambda>qs s. (Inl (Exception ''Network request failed''), s)),
       updateDocument = (\<lambda>ident data s. (Inl (Exception ''Network request failed''), s)),
       createDocument = (\<lambda>ident data s. (Inl (Exception ''Network request failed''), s)) \<rparr>"

text \<open>A collection the caller may read but not write: listing works, every write throws.\<close>

definition read_only :: "document list databases" where
  "read_only =
     \<lparr> listDocuments = collection_list,
       updateDocument = (\<lambda>ident data s. (Inl (Exception ''Not authorized''), s)),
       createDocument = (\<lambda>ident data s. (Inl (Exception ''Not authorized''), s)) \<rparr>"

section \<open>What a displayed rating denotes\<close>

text \<open>
  The reading of a numeral with one decimal place, written from the meaning of the
  notation and not from the code: an optional minus sign, one or more digits, a point,
  one digit. It is the yardstick for "the rating rounded to one decimal place": the card
  must show a numeral whose value is a whole number of tenths at most half a tenth away
  from the rating.
\<close>

definition digit_value :: "char \<Rightarrow> nat option" where
  "digit_value c = map_of (zip ''0123456789'' [0, 1, 2, 3, 4, 5, 6, 7, 8, 9]) c"

fun natural_value_from :: "nat \<Rightarrow> string \<Rightarrow> nat option" where
  "natural_value_from acc [] = Some acc"
| "natural_value_from acc (c # cs) =
     (case digit_value c of
        None \<Rightarrow> None
      | Some d \<Rightarrow> natural_value_from (10 * acc + d) cs)"

definition unsigned_decimal_value :: "string \<Rightarrow> rat option" where
  "unsigned_decimal_value s =
     (if length s < 3 \<or> s ! (length s - 2) \<noteq> CHR ''.'' then None
      else (case (natural_value_from 0 (take (length s - 2) s), digit_value (last s)) of
              (Some i, Some d) \<Rightarrow> Some (of_nat i + of_nat d / 10)
            | (Some i, None) \<Rightarrow> None
            | (None, d) \<Rightarrow> None))"

definition decimal_value :: "string \<Rightarrow> rat option" where
  "decimal_value s =
     (case s of
        [] \<Rightarrow> None
      | c # cs \<Rightarrow>
          (if c = CHR ''-'' then map_option uminus (unsigned_decimal_value cs)
           else unsigned_decimal_value s))"

section \<open>Sample data\<close>

text \<open>
  What \<open>Number::toString\<close> prints for \<open>10^21\<close>, the one point where the examples below
  need it: the shortest digits are the single digit 1 and the exponent is 21.
\<close>

definition toString_at_1e21 :: "rat \<Rightarrow> string" where
  "toString_at_1e21 x = (if x = 10 ^ 21 then ''1e+21'' else [])"

definition inception :: Movie where
  "inception =
     \<lparr> Movie.id' = 27205, title = ''Inception'', adult = False,
       backdrop_path = None, genre_ids = [28, 878], original_language = ''en'',
       original_title = ''Inception'', overview = ''A thief who steals secrets.'',
       popularity = Num 83.9, poster_path = Some ''/inception.jpg'',
       release_date = Some ''2010-07-15'', video = False,
       vote_average = Some (Num 8.369), vote_count = 36000 \<rparr>"

definition stored :: "string \<Rightarrow> string \<Rightarrow> int \<Rightarrow> document" where
  "stored ident term n =
     \<lparr> dollar_id = ident, searchTerm = term, count = n, movie_id = 100 + n,
       poster_url = ''https://image.tmdb.org/t/p/w500/'' @ term @ ''.jpg'',
       title = term, lastSearchedMovie = None \<rparr>"

definition shelf :: "document list" where
  "shelf =
     [stored ''d1'' ''alien'' 4, stored ''d2'' ''batman'' 9, stored ''d3'' ''casablanca'' 1,
      stored ''d4'' ''dune'' 7, stored ''d5'' ''eraserhead'' 2, stored ''d6'' ''fargo'' 9,
      stored ''d7'' ''gattaca'' 3]"

declare digits.simps [simp del]

declare bit_length.simps [simp del]

section \<open>Properties of the movie card\<close>

subsection \<open>Decimal digits\<close>

lemma floor_rat_numeral:
  "\<lfloor>(numeral a :: rat) / numeral b\<rfloor> = numeral a div numeral b"
  using floor_divide_of_int_eq [of "numeral a" "numeral b", where ?'a = rat] by simp

lemma digit_value_digit_char: "d < 10 \<Longrightarrow> digit_value (digit_char d) = Some d"
proof -
  assume "d < 10"
  then have "d \<in> {0, 1, 2, 3, 4, 5, 6, 7, 8, 9}" by auto
  then show ?thesis
    by (auto simp add: digit_value_def digit_char_def)
qed

lemma digit_char_not_minus: "d < 10 \<Longrightarrow> digit_char d \<noteq> CHR ''-''"
proof -
  assume "d < 10"
  then have "d \<in> {0, 1, 2, 3, 4, 5, 6, 7, 8, 9}" by auto
  then show ?thesis
    by (auto simp add: digit_char_def)
qed

lemma natural_value_from_snoc:
  "natural_value_from acc (cs @ [c]) =
     (case natural_value_from acc cs of
        None \<Rightarrow> None
      | Some v \<Rightarrow> (case digit_value c of None \<Rightarrow> None | Some d \<Rightarrow> Some (10 * v + d)))"
  by (induction cs arbitrary: acc) (auto split: option.splits)

lemma natural_value_digits: "natural_value_from 0 (digits n) = Some n"
proof (induction n rule: digits.induct)
  case (1 n)
  show ?case
  proof (cases "n < 10")
    case True
    then show ?thesis
      by (simp add: digits.simps [of n] digit_value_digit_char)
  next
    case False
    with 1 have "natural_value_from 0 (digits (n div 10)) = Some (n div 10)" by simp
    with False show ?thesis
      by (simp add: digits.simps [of n] natural_value_from_snoc digit_value_digit_char)
  qed
qed

lemma digits_not_empty: "digits n \<noteq> []"
  by (simp add: digits.simps [of n])

lemma hd_digits_not_minus: "hd (digits n) \<noteq> CHR ''-''"
proof (induction n rule: digits.induct)
  case (1 n)
  show ?case
  proof (cases "n < 10")
    case True
    then show ?thesis by (simp add: digits.simps [of n] digit_char_not_minus)
  next
    case False
    with 1 have "hd (digits (n div 10)) \<noteq> CHR ''-''" by simp
    with False show ?thesis
      by (simp add: digits.simps [of n] digits_not_empty)
  qed
qed

lemma length_digits_le_1: "length (digits n) \<le> 1 \<longleftrightarrow> n < 10"
proof (cases "n < 10")
  case True
  then show ?thesis by (simp add: digits.simps [of n])
next
  case False
  have "digits (n div 10) \<noteq> []" by (rule digits_not_empty)
  then have "0 < length (digits (n div 10))" by simp
  with False show ?thesis by (simp add: digits.simps [of n])
qed

text \<open>
  Below \<open>10^21\<close> the printed text is the sign, the digits of the whole tenths divided
  by ten, a point and one more digit.
\<close>

lemma toFixed1_shape:
  assumes "\<bar>r\<bar> < 10 ^ 21"
  shows "toFixed1 toString (Num r) =
           (if r < 0 then ''-'' else [])
             @ digits (nat \<lfloor>\<bar>r\<bar> * 10 + 1 / 2\<rfloor> div 10)
             @ ''.'' @ [digit_char (nat \<lfloor>\<bar>r\<bar> * 10 + 1 / 2\<rfloor> mod 10)]"
proof -
  define n where "n = nat \<lfloor>\<bar>r\<bar> * 10 + 1 / 2\<rfloor>"
  have body: "(let m0 = digits n; m = (if length m0 \<le> 1 then ''0'' @ m0 else m0); k = length m
               in take (k - 1) m @ ''.'' @ drop (k - 1) m)
              = digits (n div 10) @ ''.'' @ [digit_char (n mod 10)]"
  proof (cases "n < 10")
    case True
    then have "digits n = [digit_char n]" "digits (n div 10) = [digit_char 0]"
      by (simp_all add: digits.simps [of n] digits.simps [of 0])
    with True show ?thesis by (simp add: Let_def digit_char_def)
  next
    case False
    then have "digits n = digits (n div 10) @ [digit_char (n mod 10)]"
      by (simp add: digits.simps [of n])
    moreover have "\<not> length (digits n) \<le> 1" using False length_digits_le_1 [of n] by simp
    ultimately show ?thesis by (simp add: Let_def)
  qed
  from assms have "\<not> 10 ^ 21 \<le> \<bar>r\<bar>" by simp
  then show ?thesis
    using body by (simp add: toFixed1_def Let_def n_def)
qed

lemma unsigned_decimal_value_digits:
  "d < 10 \<Longrightarrow> unsigned_decimal_value (digits i @ ''.'' @ [digit_char d]) = Some (of_nat i + of_nat d / 10)"
  by (simp add: unsigned_decimal_value_def nth_append natural_value_digits
      digit_value_digit_char digits_not_empty)

lemma decimal_value_digits:
  assumes "d < 10"
  shows "decimal_value ((if neg then ''-'' else []) @ digits i @ ''.'' @ [digit_char d])
         = Some ((if neg then - 1 else 1) * (of_nat i + of_nat d / 10))"
proof (cases neg)
  case True
  then show ?thesis
    using assms unsigned_decimal_value_digits [of d i] by (simp add: decimal_value_def)
next
  case False
  obtain c cs where cs: "digits i = c # cs" using digits_not_empty [of i] by (cases "digits i") auto
  with hd_digits_not_minus [of i] have "c \<noteq> CHR ''-''" by simp
  with False cs show ?thesis
    using assms unsigned_decimal_value_digits [of d i] by (simp add: decimal_value_def)
qed

lemma nearest_tenth:
  fixes x :: rat
  assumes "0 \<le> x"
  shows "\<bar>of_nat (nat \<lfloor>x * 10 + 1 / 2\<rfloor>) / 10 - x\<bar> \<le> 1 / 20"
proof -
  define k where "k = \<lfloor>x * 10 + 1 / 2\<rfloor>"
  have "0 \<le> k" using assms by (simp add: k_def)
  then have n: "(of_nat (nat k) :: rat) = of_int k" by simp
  have "of_int k \<le> x * 10 + 1 / 2" "x * 10 + 1 / 2 < of_int k + 1"
    unfolding k_def by linarith+
  then have "of_int k / 10 - x \<le> 1 / 20" "x - of_int k / 10 \<le> 1 / 20"
    by linarith+
  then have "\<bar>of_int k / 10 - x\<bar> \<le> 1 / 20" by linarith
  then show ?thesis unfolding k_def [symmetric] n .
qed

subsection \<open>The rating\<close>

text \<open>
  C7 (amended). A movie whose \<open>vote_average\<close> is absent or zero shows \<open>N/A\<close>. A movie
  whose \<open>vote_average\<close> is a finite nonzero number of magnitude below \<open>10^21\<close> shows the
  rating rounded to one decimal place: the text, read as a decimal numeral with one
  digit after the point, is a whole number of tenths at most half a tenth away from the
  rating.
\<close>

theorem MovieCard_rating:
  "(vote_average movie = None \<or> vote_average movie = Some (Num 0) \<longrightarrow>
      rating (MovieCard toString movie) = ''N/A'') \<and>
   (\<forall>r. vote_average movie = Some (Num r) \<and> r \<noteq> 0 \<and> \<bar>r\<bar> < 10 ^ 21 \<longrightarrow>
      (\<exists>k::int. decimal_value (rating (MovieCard toString movie)) = Some (of_int k / 10)
                \<and> \<bar>of_int k / 10 - r\<bar> \<le> 1 / 20))"
proof (intro conjI allI impI)
  assume "vote_average movie = None \<or> vote_average movie = Some (Num 0)"
  then show "rating (MovieCard toString movie) = ''N/A''"
    by (auto simp add: MovieCard_def)
next
  fix r
  assume a: "vote_average movie = Some (Num r) \<and> r \<noteq> 0 \<and> \<bar>r\<bar> < 10 ^ 21"
  define n where "n = nat \<lfloor>\<bar>r\<bar> * 10 + 1 / 2\<rfloor>"
  define k :: int where "k = (if r < 0 then - int n else int n)"
  from a have shown: "rating (MovieCard toString movie) =
      (if r < 0 then ''-'' else []) @ digits (n div 10) @ ''.'' @ [digit_char (n mod 10)]"
    by (simp add: MovieCard_def toFixed1_shape n_def)
  have tenths: "(of_nat (n div 10) + of_nat (n mod 10) / 10 :: rat) = of_nat n / 10"
  proof -
    have "n = 10 * (n div 10) + n mod 10" by simp
    then have "(of_nat n :: rat) = 10 * of_nat (n div 10) + of_nat (n mod 10)"
      by (metis of_nat_add of_nat_mult of_nat_numeral)
    then show ?thesis by simp
  qed
  have "decimal_value (rating (MovieCard toString movie)) =
          Some ((if r < 0 then - 1 else 1) * (of_nat (n div 10) + of_nat (n mod 10) / 10))"
    unfolding shown by (rule decimal_value_digits) simp
  then have denotes: "decimal_value (rating (MovieCard toString movie)) = Some (of_int k / 10)"
    by (simp add: tenths k_def)
  have near: "\<bar>of_nat n / 10 - \<bar>r\<bar>\<bar> \<le> 1 / 20"
    unfolding n_def by (rule nearest_tenth) simp
  have "\<bar>of_int k / 10 - r\<bar> \<le> 1 / 20"
  proof (cases "r < 0")
    case True
    then have "of_int k / 10 - r = - (of_nat n / 10 - \<bar>r\<bar>)" by (simp add: k_def)
    with near show ?thesis by (metis abs_minus_cancel)
  next
    case False
    then have "of_int k / 10 - r = of_nat n / 10 - \<bar>r\<bar>" by (simp add: k_def)
    with near show ?thesis by simp
  qed
  with denotes show "\<exists>k::int. decimal_value (rating (MovieCard toString movie)) = Some (of_int k / 10)
                \<and> \<bar>of_int k / 10 - r\<bar> \<le> 1 / 20"
    by blast
qed

theorem MovieCard_rating_witness:
  "rating (MovieCard (\<lambda>r. []) (inception\<lparr>vote_average := None\<rparr>)) = ''N/A'' \<and>
   rating (MovieCard (\<lambda>r. []) (inception\<lparr>vote_average := Some (Num 0)\<rparr>)) = ''N/A'' \<and>
   rating (MovieCard (\<lambda>r. []) inception) = ''8.4'' \<and>
   decimal_value (rating (MovieCard (\<lambda>r. []) inception)) = Some (84 / 10) \<and>
   \<bar>84 / 10 - 8.369\<bar> \<le> (1 / 20 :: rat)"
  using MovieCard_rating [of "inception\<lparr>vote_average := None\<rparr>" "\<lambda>r. []"]
    MovieCard_rating [of "inception\<lparr>vote_average := Some (Num 0)\<rparr>" "\<lambda>r. []"]
    MovieCard_rating [of inception "\<lambda>r. []"]
  by (simp add: MovieCard_def inception_def toFixed1_def Let_def floor_rat_numeral digits.simps
      digit_char_def decimal_value_def unsigned_decimal_value_def digit_value_def)

text \<open>
  The claim without the two bounds fails: an infinite rating is nonzero and shows
  \<open>Infinity\<close>, and the rating \<open>10^21\<close> shows \<open>1e+21\<close>; neither text is a numeral with one
  decimal place.
\<close>

theorem MovieCard_rating_counterexample:
  "rating (MovieCard toString_at_1e21 (inception\<lparr>vote_average := Some PosInfinity\<rparr>))
     = ''Infinity'' \<and>
   decimal_value ''Infinity'' = None \<and>
   rating (MovieCard toString_at_1e21 (inception\<lparr>vote_average := Some (Num (10 ^ 21))\<rparr>))
     = ''1e+21'' \<and>
   decimal_value ''1e+21'' = None"
  by (simp add: MovieCard_def inception_def toFixed1_def Let_def toString_at_1e21_def
      decimal_value_def unsigned_decimal_value_def)

text \<open>
  The values of a \<open>number\<close> that are not finite: \<open>NaN\<close> is falsy and shows \<open>N/A\<close> like an
  absent rating; an infinite value shows its name. Ties round away from zero, and a
  small negative rating keeps its sign.
\<close>

lemma MovieCard_rating_not_finite:
  "rating (MovieCard toString (movie\<lparr>vote_average := Some NaN\<rparr>)) = ''N/A''"
  "rating (MovieCard toString (movie\<lparr>vote_average := Some PosInfinity\<rparr>)) = ''Infinity''"
  "rating (MovieCard toString (movie\<lparr>vote_average := Some NegInfinity\<rparr>)) = ''-Infinity''"
  by (simp_all add: MovieCard_def toFixed1_def)

lemma toFixed1_examples:
  "toFixed1 toString (Num 0.25) = ''0.3''"
  "toFixed1 toString (Num (- 0.04)) = ''-0.0''"
  "toFixed1 toString (Num 1234.96) = ''1235.0''"
  by (simp_all add: toFixed1_def Let_def floor_rat_numeral digits.simps digit_char_def)

subsection \<open>The poster\<close>

text \<open>
  C8. A movie whose \<open>poster_path\<close> is \<open>null\<close> gets the placeholder image
  \<open>/no-movie.png\<close>; a movie with a non-empty poster path gets the image address
  \<open>https://image.tmdb.org/t/p/w500\<close> followed by the path.
\<close>

theorem MovieCard_poster:
  "(poster_path movie = None \<longrightarrow> img_src (MovieCard toString movie) = ''/no-movie.png'') \<and>
   (\<forall>p. poster_path movie = Some p \<and> p \<noteq> [] \<longrightarrow>
      img_src (MovieCard toString movie) = ''https://image.tmdb.org/t/p/w500'' @ p)"
  by (simp add: MovieCard_def)

theorem MovieCard_poster_witness:
  "img_src (MovieCard (\<lambda>r. []) (inception\<lparr>poster_path := None\<rparr>)) = ''/no-movie.png'' \<and>
   img_src (MovieCard (\<lambda>r. []) inception) = ''https://image.tmdb.org/t/p/w500/inception.jpg''"
  using MovieCard_poster [of "inception\<lparr>poster_path := None\<rparr>" "\<lambda>r. []"]
    MovieCard_poster [of inception "\<lambda>r. []"]
  by (simp add: inception_def)

text \<open>The empty path is falsy too, and gets the placeholder.\<close>

lemma MovieCard_poster_empty:
  "poster_path movie = Some [] \<Longrightarrow> img_src (MovieCard toString movie) = ''/no-movie.png''"
  by (simp add: MovieCard_def)

subsection \<open>The release year\<close>

lemma index0_split_string:
  "index0_text (split_string sep s) = takeWhile (\<lambda>c. c \<noteq> sep) s"
  by (induction s) (auto split: list.splits)

text \<open>
  C9. A movie with a release date shows the part of the date before its first dash as
  the year (for \<open>2021-05-04\<close> that is \<open>2021\<close>); a movie whose release date is absent or
  empty shows \<open>N/A\<close>.
\<close>

theorem MovieCard_year:
  "(release_date movie = None \<or> release_date movie = Some [] \<longrightarrow>
      year (MovieCard toString movie) = ''N/A'') \<and>
   (\<forall>d. release_date movie = Some d \<and> d \<noteq> [] \<longrightarrow>
      year (MovieCard toString movie) = takeWhile (\<lambda>c. c \<noteq> CHR ''-'') d)"
  by (auto simp add: MovieCard_def index0_split_string)

theorem MovieCard_year_witness:
  "year (MovieCard (\<lambda>r. []) (inception\<lparr>release_date := Some ''2021-05-04''\<rparr>)) = ''2021'' \<and>
   year (MovieCard (\<lambda>r. []) (inception\<lparr>release_date := Some []\<rparr>)) = ''N/A'' \<and>
   year (MovieCard (\<lambda>r. []) (inception\<lparr>release_date := None\<rparr>)) = ''N/A''"
  using MovieCard_year [of "inception\<lparr>release_date := Some ''2021-05-04''\<rparr>" "\<lambda>r. []"]
    MovieCard_year [of "inception\<lparr>release_date := Some []\<rparr>" "\<lambda>r. []"]
    MovieCard_year [of "inception\<lparr>release_date := None\<rparr>" "\<lambda>r. []"]
  by (simp add: inception_def)


section \<open>Properties of the data-access module\<close>

subsection \<open>Adding to a count\<close>

text \<open>A sum of magnitude up to \<open>2^53\<close> is exact.\<close>

lemma number_add_exact: "\<bar>a + b\<bar> \<le> 2 ^ 53 \<Longrightarrow> number_add a b = a + b"
  by (simp add: number_add_def round_binary64_def Let_def nat_le_iff)

text \<open>
  At \<open>2^53\<close> adding 1 changes nothing: \<open>2^53 + 1\<close> lies halfway between the binary64
  values \<open>2^53\<close> and \<open>2^53 + 2\<close>, and the tie goes to the even significand.
\<close>

lemma bit_length_above_2_53: "bit_length 9007199254740993 = 54"
  by (simp add: bit_length.simps)

lemma number_add_at_2_53: "number_add 9007199254740992 1 = 9007199254740992"
  by (simp add: number_add_def round_binary64_def Let_def bit_length_above_2_53)

subsection \<open>The two paths of the upsert\<close>

lemma selected_by_term:
  "selected [Equal ''searchTerm'' term] = (\<lambda>d. document.searchTerm d = term)"
  by (rule ext) (simp add: string_attribute_def)

lemma collection_list_by_term:
  "listDocuments collection [Equal ''searchTerm'' term] ds =
     (Inr (take 25 (filter (\<lambda>d. document.searchTerm d = term) ds)), ds)"
  by (simp add: collection_def collection_list_def selected_by_term)
     (simp add: string_attribute_def)

lemma selected_no_filter: "selected [OrderDesc a, Limit n] = (\<lambda>d. True)"
  by (rule ext) simp

lemma collection_list_trending:
  "listDocuments collection [OrderDesc ''count'', Limit 5] ds =
     (Inr (take 5 (sort_key (\<lambda>d. - document.count d) ds)), ds)"
  by (simp add: collection_def collection_list_def selected_no_filter)
     (simp add: integer_attribute_def)

lemma updateSearchCount_create_path:
  assumes "listDocuments db [Equal ''searchTerm'' term] s = (Inr [], s1)"
  shows "updateSearchCount_try db unique term movie s =
           (case createDocument db unique
                   \<lparr> create_data.searchTerm = term, count = 1, movie_id = Movie.id' movie,
                     poster_url = ''https://image.tmdb.org/t/p/w500''
                                    @ template_string (poster_path movie),
                     title = Movie.title movie \<rparr> s1 of
              (Inl e, s2) \<Rightarrow> (Inl e, s2)
            | (Inr created, s2) \<Rightarrow> (Inr (), s2))"
  using assms by (simp add: updateSearchCount_try_def)

lemma updateSearchCount_update_path:
  assumes "listDocuments db [Equal ''searchTerm'' term] s = (Inr (doc # rest), s1)"
  shows "updateSearchCount_try db unique term movie s =
           (case updateDocument db (dollar_id doc)
                   \<lparr> update_data.count = number_add (document.count doc) 1,
                     lastSearchedMovie = movie \<rparr> s1 of
              (Inl e, s2) \<Rightarrow> (Inl e, s2)
            | (Inr updated, s2) \<Rightarrow> (Inr (), s2))"
  using assms by (simp add: updateSearchCount_try_def)

lemma collection_create_fresh:
  assumes "unique \<notin> dollar_id ` set ds"
  shows "createDocument collection unique data ds =
           (Inr (new_document unique data), ds @ [new_document unique data])"
proof -
  from assms have "\<not> list_ex (\<lambda>d. dollar_id d = unique) ds"
    by (auto simp add: list_ex_iff)
  then show ?thesis by (simp add: collection_def collection_create_def)
qed

lemma collection_update_known:
  assumes "doc \<in> set ds"
  shows "\<exists>d. updateDocument collection (dollar_id doc) data ds =
           (Inr d, map (\<lambda>x. if dollar_id x = dollar_id doc then apply_update data x else x) ds)"
proof -
  from assms have "find (\<lambda>d. dollar_id d = dollar_id doc) ds \<noteq> None"
    by (auto simp add: find_None_iff)
  then show ?thesis
    by (auto simp add: collection_def collection_update_def)
qed

lemma collection_create_path:
  assumes "term \<notin> document.searchTerm ` set ds"
    and "unique \<notin> dollar_id ` set ds"
  shows "updateSearchCount collection unique term movie (ds, con) =
           (Fulfilled (),
            ds @ [\<lparr> dollar_id = unique, searchTerm = term, count = 1,
                    movie_id = Movie.id' movie,
                    poster_url = ''https://image.tmdb.org/t/p/w500''
                                   @ template_string (poster_path movie),
                    title = Movie.title movie, lastSearchedMovie = None \<rparr>],
            con)"
proof -
  from assms(1) have "filter (\<lambda>d. document.searchTerm d = term) ds = []"
    by (auto simp add: filter_empty_conv)
  then have "listDocuments collection [Equal ''searchTerm'' term] ds = (Inr [], ds)"
    by (simp add: collection_list_by_term)
  then show ?thesis
    using collection_create_fresh [OF assms(2)]
    by (simp add: updateSearchCount_create_path new_document_def)
qed

lemma collection_update_path:
  assumes "filter (\<lambda>d. document.searchTerm d = term) ds = doc # rest"
  shows "updateSearchCount collection unique term movie (ds, con) =
           (Fulfilled (),
            map (\<lambda>x. if dollar_id x = dollar_id doc
                      then x\<lparr> document.count := number_add (document.count doc) 1,
                              document.lastSearchedMovie := Some movie \<rparr>
                      else x) ds,
            con)"
proof -
  have "doc \<in> set (filter (\<lambda>d. document.searchTerm d = term) ds)"
    unfolding assms by simp
  then have member: "doc \<in> set ds" by simp
  have "listDocuments collection [Equal ''searchTerm'' term] ds = (Inr (doc # take 24 rest), ds)"
    by (simp add: collection_list_by_term assms)
  then have body: "updateSearchCount_try collection unique term movie ds =
           (case updateDocument collection (dollar_id doc)
                   \<lparr> update_data.count = number_add (document.count doc) 1,
                     lastSearchedMovie = movie \<rparr> ds of
              (Inl e, s2) \<Rightarrow> (Inl e, s2)
            | (Inr updated, s2) \<Rightarrow> (Inr (), s2))"
    by (rule updateSearchCount_update_path)
  from collection_update_known [OF member]
  obtain d where "updateDocument collection (dollar_id doc)
                   \<lparr> update_data.count = number_add (document.count doc) 1,
                     lastSearchedMovie = movie \<rparr> ds =
      (Inr d, map (\<lambda>x. if dollar_id x = dollar_id doc
                       then apply_update \<lparr> update_data.count = number_add (document.count doc) 1,
                                           lastSearchedMovie = movie \<rparr> x
                       else x) ds)"
    by blast
  with body show ?thesis by (simp add: apply_update_def)
qed

subsection \<open>Creating a counter document\<close>

text \<open>
  C1. When the collection holds no document for the search term, \<open>updateSearchCount\<close>
  creates exactly one document: the collection afterwards is the old one followed by a
  single new document, whose fields are the search term, \<open>count = 1\<close>, the movie's \<open>id\<close>
  as \<open>movie_id\<close>, the movie's poster address as \<open>poster_url\<close> and the movie's title. The
  service is the reference collection, and \<open>ID.unique()\<close> returns an identifier not yet
  in use.
\<close>

theorem updateSearchCount_creates:
  assumes "term \<notin> document.searchTerm ` set ds"
    and "unique \<notin> dollar_id ` set ds"
  shows "updateSearchCount collection unique term movie (ds, con) =
           (Fulfilled (),
            ds @ [\<lparr> dollar_id = unique, searchTerm = term, count = 1,
                    movie_id = Movie.id' movie,
                    poster_url = ''https://image.tmdb.org/t/p/w500''
                                   @ template_string (poster_path movie),
                    title = Movie.title movie, lastSearchedMovie = None \<rparr>],
            con)"
  using assms by (rule collection_create_path)

theorem updateSearchCount_creates_witness:
  "''heat'' \<notin> document.searchTerm ` set shelf \<and> ''d8'' \<notin> dollar_id ` set shelf \<and>
   updateSearchCount collection ''d8'' ''heat'' inception (shelf, []) =
     (Fulfilled (),
      shelf @ [\<lparr> dollar_id = ''d8'', searchTerm = ''heat'', count = 1, movie_id = 27205,
                 poster_url = ''https://image.tmdb.org/t/p/w500/inception.jpg'',
                 title = ''Inception'', lastSearchedMovie = None \<rparr>],
      [])"
proof -
  have a: "''heat'' \<notin> document.searchTerm ` set shelf"
    by (simp add: shelf_def stored_def)
  have b: "''d8'' \<notin> dollar_id ` set shelf"
    by (simp add: shelf_def stored_def)
  show ?thesis
    using a b updateSearchCount_creates [OF a b, of inception "[]"]
    by (simp add: inception_def)
qed

text \<open>
  C10. On the create path a movie whose \<open>poster_path\<close> is \<open>null\<close> is stored with the
  \<open>poster_url\<close> \<open>https://image.tmdb.org/t/p/w500null\<close>: the template literal prints
  \<open>null\<close>, and no placeholder is put in its place, whereas the card shows
  \<open>/no-movie.png\<close> for the same movie.
\<close>

theorem updateSearchCount_null_poster:
  assumes "term \<notin> document.searchTerm ` set ds"
    and "unique \<notin> dollar_id ` set ds"
    and "poster_path movie = None"
  shows "updateSearchCount collection unique term movie (ds, con) =
           (Fulfilled (),
            ds @ [\<lparr> dollar_id = unique, searchTerm = term, count = 1,
                    movie_id = Movie.id' movie,
                    poster_url = ''https://image.tmdb.org/t/p/w500null'',
                    title = Movie.title movie, lastSearchedMovie = None \<rparr>],
            con)
         \<and> img_src (MovieCard toString movie) = ''/no-movie.png''"
  using collection_create_path [OF assms(1) assms(2), of movie con] assms(3)
  by (simp add: MovieCard_def)

theorem updateSearchCount_null_poster_witness:
  "''heat'' \<notin> document.searchTerm ` set shelf \<and> ''d8'' \<notin> dollar_id ` set shelf \<and>
   poster_path (inception\<lparr>poster_path := None\<rparr>) = None \<and>
   updateSearchCount collection ''d8'' ''heat'' (inception\<lparr>poster_path := None\<rparr>) (shelf, []) =
     (Fulfilled (),
      shelf @ [\<lparr> dollar_id = ''d8'', searchTerm = ''heat'', count = 1, movie_id = 27205,
                 poster_url = ''https://image.tmdb.org/t/p/w500null'',
                 title = ''Inception'', lastSearchedMovie = None \<rparr>],
      []) \<and>
   img_src (MovieCard (\<lambda>r. []) (inception\<lparr>poster_path := None\<rparr>)) = ''/no-movie.png''"
proof -
  have a: "''heat'' \<notin> document.searchTerm ` set shelf"
    by (simp add: shelf_def stored_def)
  have b: "''d8'' \<notin> dollar_id ` set shelf"
    by (simp add: shelf_def stored_def)
  have c: "poster_path (inception\<lparr>poster_path := None\<rparr>) = None"
    by simp
  show ?thesis
    using a b updateSearchCount_null_poster [OF a b c, of "[]" "\<lambda>r. []"]
    by (simp add: inception_def)
qed

subsection \<open>Updating a counter document\<close>

text \<open>
  C2 (amended). When the collection holds exactly one document for the search term,
  \<open>updateSearchCount\<close> creates no second document: the collection keeps its length, the
  search term still has exactly one document, which is the old one with a new \<open>count\<close>
  and the movie as \<open>lastSearchedMovie\<close>, and a document with another identifier is left
  as it was. When the old count is at least \<open>-2^53\<close> and below \<open>2^53\<close>, the new count is
  the old one plus exactly 1.
\<close>

theorem updateSearchCount_increments:
  assumes "filter (\<lambda>d. document.searchTerm d = term) ds = [doc]"
  shows "\<exists>ds' c. updateSearchCount collection unique term movie (ds, con) = (Fulfilled (), ds', con)
           \<and> length ds' = length ds
           \<and> filter (\<lambda>d. document.searchTerm d = term) ds' =
               [doc\<lparr> document.count := c, document.lastSearchedMovie := Some movie \<rparr>]
           \<and> (- (2 ^ 53) \<le> document.count doc \<and> document.count doc < 2 ^ 53 \<longrightarrow>
                c = document.count doc + 1)
           \<and> (\<forall>i < length ds. dollar_id (ds ! i) \<noteq> dollar_id doc \<longrightarrow> ds' ! i = ds ! i)"
proof -
  let ?c = "number_add (document.count doc) 1"
  let ?g = "\<lambda>x. if dollar_id x = dollar_id doc
                 then x\<lparr> document.count := ?c, document.lastSearchedMovie := Some movie \<rparr>
                 else x"
  have run: "updateSearchCount collection unique term movie (ds, con) = (Fulfilled (), map ?g ds, con)"
    using assms by (rule collection_update_path)
  have keep: "(\<lambda>d. document.searchTerm d = term) \<circ> ?g = (\<lambda>d. document.searchTerm d = term)"
    by (rule ext) simp
  have "filter (\<lambda>d. document.searchTerm d = term) (map ?g ds) = map ?g [doc]"
    by (simp only: filter_map keep assms)
  then have one: "filter (\<lambda>d. document.searchTerm d = term) (map ?g ds) =
               [doc\<lparr> document.count := ?c, document.lastSearchedMovie := Some movie \<rparr>]"
    by simp
  have exact: "- (2 ^ 53) \<le> document.count doc \<and> document.count doc < 2 ^ 53 \<longrightarrow>
                 ?c = document.count doc + 1"
  proof
    assume "- (2 ^ 53) \<le> document.count doc \<and> document.count doc < 2 ^ 53"
    then have "\<bar>document.count doc + 1\<bar> \<le> 2 ^ 53" by (simp add: abs_le_iff)
    then show "?c = document.count doc + 1" by (rule number_add_exact)
  qed
  have others: "\<forall>i < length ds. dollar_id (ds ! i) \<noteq> dollar_id doc \<longrightarrow> map ?g ds ! i = ds ! i"
    by simp
  from run one exact others show ?thesis
    by (intro exI [of _ "map ?g ds"] exI [of _ ?c]) simp
qed

theorem updateSearchCount_increments_witness:
  "filter (\<lambda>d. document.searchTerm d = ''dune'') shelf = [stored ''d4'' ''dune'' 7] \<and>
   - (2 ^ 53) \<le> document.count (stored ''d4'' ''dune'' 7) \<and>
   document.count (stored ''d4'' ''dune'' 7) < 2 ^ 53 \<and>
   updateSearchCount collection ''d8'' ''dune'' inception (shelf, []) =
     (Fulfilled (),
      [stored ''d1'' ''alien'' 4, stored ''d2'' ''batman'' 9, stored ''d3'' ''casablanca'' 1,
       (stored ''d4'' ''dune'' 7)\<lparr> document.count := 8,
                                   document.lastSearchedMovie := Some inception \<rparr>,
       stored ''d5'' ''eraserhead'' 2, stored ''d6'' ''fargo'' 9, stored ''d7'' ''gattaca'' 3],
      [])"
proof -
  have a: "filter (\<lambda>d. document.searchTerm d = ''dune'') shelf = [stored ''d4'' ''dune'' 7]"
    by (simp add: shelf_def stored_def)
  have b: "- (2 ^ 53) \<le> document.count (stored ''d4'' ''dune'' 7)"
      "document.count (stored ''d4'' ''dune'' 7) < 2 ^ 53"
    by (simp_all add: stored_def)
  have run: "updateSearchCount collection ''d8'' ''dune'' inception (shelf, []) =
     (Fulfilled (),
      [stored ''d1'' ''alien'' 4, stored ''d2'' ''batman'' 9, stored ''d3'' ''casablanca'' 1,
       (stored ''d4'' ''dune'' 7)\<lparr> document.count := 8,
                                   document.lastSearchedMovie := Some inception \<rparr>,
       stored ''d5'' ''eraserhead'' 2, stored ''d6'' ''fargo'' 9, stored ''d7'' ''gattaca'' 3],
      [])"
    by (simp add: updateSearchCount_try_def collection_def collection_list_def
        collection_update_def apply_update_def string_attribute_def shelf_def stored_def
        number_add_exact)
  from updateSearchCount_increments [OF a, of "''d8''" inception "[]"] a b run
  show ?thesis by simp
qed

text \<open>
  The claim without the bound fails: a document whose count is \<open>2^53\<close> is written back
  with the count \<open>2^53\<close>, not \<open>2^53 + 1\<close>.
\<close>

theorem updateSearchCount_increments_counterexample:
  "filter (\<lambda>d. document.searchTerm d = ''dune'') [stored ''d4'' ''dune'' 9007199254740992] =
     [stored ''d4'' ''dune'' 9007199254740992] \<and>
   updateSearchCount collection ''d8'' ''dune'' inception
       ([stored ''d4'' ''dune'' 9007199254740992], []) =
     (Fulfilled (),
      [(stored ''d4'' ''dune'' 9007199254740992)
         \<lparr> document.lastSearchedMovie := Some inception \<rparr>],
      []) \<and>
   document.count
     ((stored ''d4'' ''dune'' 9007199254740992)\<lparr> document.lastSearchedMovie := Some inception \<rparr>)
     \<noteq> document.count (stored ''d4'' ''dune'' 9007199254740992) + 1"
  by (simp add: updateSearchCount_try_def collection_def collection_list_def
      collection_update_def apply_update_def string_attribute_def stored_def
      number_add_at_2_53)



subsection \<open>Exceptions of the upsert\<close>

text \<open>
  C3. Whatever the service does, \<open>updateSearchCount\<close> never rejects: its promise is
  fulfilled with no value, the same after a success and after a failure. The log gains
  one entry, with the exception, exactly when the body threw; and each of the three
  remote calls that throws is caught and logged in this way.
\<close>

theorem updateSearchCount_never_rejects:
  "fst (updateSearchCount db unique term movie (s, con)) = Fulfilled () \<and>
   snd (snd (updateSearchCount db unique term movie (s, con))) =
     (case fst (updateSearchCount_try db unique term movie s) of
        Inl e \<Rightarrow> con @ [(''Error updating search count:'', e)]
      | Inr u \<Rightarrow> con) \<and>
   (\<forall>e s1. listDocuments db [Equal ''searchTerm'' term] s = (Inl e, s1) \<longrightarrow>
      updateSearchCount db unique term movie (s, con) =
        (Fulfilled (), s1, con @ [(''Error updating search count:'', e)])) \<and>
   (\<forall>doc rest s1 e s2.
      listDocuments db [Equal ''searchTerm'' term] s = (Inr (doc # rest), s1) \<and>
      updateDocument db (dollar_id doc)
        \<lparr> update_data.count = number_add (document.count doc) 1, lastSearchedMovie = movie \<rparr> s1
        = (Inl e, s2) \<longrightarrow>
      updateSearchCount db unique term movie (s, con) =
        (Fulfilled (), s2, con @ [(''Error updating search count:'', e)])) \<and>
   (\<forall>s1 e s2.
      listDocuments db [Equal ''searchTerm'' term] s = (Inr [], s1) \<and>
      createDocument db unique
        \<lparr> create_data.searchTerm = term, count = 1, movie_id = Movie.id' movie,
          poster_url = ''https://image.tmdb.org/t/p/w500'' @ template_string (poster_path movie),
          title = Movie.title movie \<rparr> s1
        = (Inl e, s2) \<longrightarrow>
      updateSearchCount db unique term movie (s, con) =
        (Fulfilled (), s2, con @ [(''Error updating search count:'', e)]))"
proof (intro conjI allI impI)
  show "fst (updateSearchCount db unique term movie (s, con)) = Fulfilled ()"
    by (simp split: prod.splits sum.splits)
  show "snd (snd (updateSearchCount db unique term movie (s, con))) =
     (case fst (updateSearchCount_try db unique term movie s) of
        Inl e \<Rightarrow> con @ [(''Error updating search count:'', e)]
      | Inr u \<Rightarrow> con)"
    by (simp split: prod.splits sum.splits)
next
  fix e s1
  assume "listDocuments db [Equal ''searchTerm'' term] s = (Inl e, s1)"
  then show "updateSearchCount db unique term movie (s, con) =
        (Fulfilled (), s1, con @ [(''Error updating search count:'', e)])"
    by (simp add: updateSearchCount_try_def)
next
  fix doc rest s1 e s2
  assume "listDocuments db [Equal ''searchTerm'' term] s = (Inr (doc # rest), s1) \<and>
      updateDocument db (dollar_id doc)
        \<lparr> update_data.count = number_add (document.count doc) 1, lastSearchedMovie = movie \<rparr> s1
        = (Inl e, s2)"
  then show "updateSearchCount db unique term movie (s, con) =
        (Fulfilled (), s2, con @ [(''Error updating search count:'', e)])"
    by (simp add: updateSearchCount_update_path)
next
  fix s1 e s2
  assume "listDocuments db [Equal ''searchTerm'' term] s = (Inr [], s1) \<and>
      createDocument db unique
        \<lparr> create_data.searchTerm = term, count = 1, movie_id = Movie.id' movie,
          poster_url = ''https://image.tmdb.org/t/p/w500'' @ template_string (poster_path movie),
          title = Movie.title movie \<rparr> s1
        = (Inl e, s2)"
  then show "updateSearchCount db unique term movie (s, con) =
        (Fulfilled (), s2, con @ [(''Error updating search count:'', e)])"
    by (simp add: updateSearchCount_create_path)
qed

theorem updateSearchCount_never_rejects_witness:
  "updateSearchCount unreachable ''d8'' ''heat'' inception ((), []) =
     (Fulfilled (), (), [(''Error updating search count:'', Exception ''Network request failed'')]) \<and>
   updateSearchCount read_only ''d8'' ''dune'' inception (shelf, []) =
     (Fulfilled (), shelf, [(''Error updating search count:'', Exception ''Not authorized'')]) \<and>
   updateSearchCount collection ''d1'' ''heat'' inception (shelf, []) =
     (Fulfilled (), shelf, [(''Error updating search count:'', Exception ''Document already exists'')])"
proof -
  have a: "listDocuments unreachable [Equal ''searchTerm'' ''heat''] () =
             (Inl (Exception ''Network request failed''), ())"
    by (simp add: unreachable_def)
  have b: "listDocuments read_only [Equal ''searchTerm'' ''dune''] shelf =
             (Inr (stored ''d4'' ''dune'' 7 # []), shelf) \<and>
           updateDocument read_only (dollar_id (stored ''d4'' ''dune'' 7))
             \<lparr> update_data.count = number_add (document.count (stored ''d4'' ''dune'' 7)) 1,
               lastSearchedMovie = inception \<rparr> shelf
           = (Inl (Exception ''Not authorized''), shelf)"
    by (simp add: read_only_def collection_list_def string_attribute_def shelf_def stored_def)
  have c: "listDocuments collection [Equal ''searchTerm'' ''heat''] shelf = (Inr [], shelf) \<and>
           createDocument collection ''d1''
             \<lparr> create_data.searchTerm = ''heat'', count = 1, movie_id = Movie.id' inception,
               poster_url = ''https://image.tmdb.org/t/p/w500'' @ template_string (poster_path inception),
               title = Movie.title inception \<rparr> shelf
           = (Inl (Exception ''Document already exists''), shelf)"
    by (simp add: collection_def collection_list_def collection_create_def string_attribute_def
        shelf_def stored_def)
  from updateSearchCount_never_rejects [of unreachable "''d8''" "''heat''" inception "()" "[]"] a
  have "updateSearchCount unreachable ''d8'' ''heat'' inception ((), []) =
     (Fulfilled (), (), [(''Error updating search count:'', Exception ''Network request failed'')])"
    by simp
  moreover
  from updateSearchCount_never_rejects [of read_only "''d8''" "''dune''" inception shelf "[]"] b
  have "updateSearchCount read_only ''d8'' ''dune'' inception (shelf, []) =
     (Fulfilled (), shelf, [(''Error updating search count:'', Exception ''Not authorized'')])"
    by (metis append_Nil)
  moreover
  from updateSearchCount_never_rejects [of collection "''d1''" "''heat''" inception shelf "[]"] c
  have "updateSearchCount collection ''d1'' ''heat'' inception (shelf, []) =
     (Fulfilled (), shelf, [(''Error updating search count:'', Exception ''Document already exists'')])"
    by (metis append_Nil)
  ultimately show ?thesis by simp
qed

subsection \<open>Trending movies\<close>

lemma getTrendingMovies_listed:
  assumes "listDocuments db [OrderDesc ''count'', Limit 5] s = (Inr documents, s')"
  shows "getTrendingMovies db (s, con) = (Fulfilled (map to_trending documents), s', con)"
  using assms by simp

lemma sorted_by_count_desc:
  "sorted_wrt (\<lambda>a b. document.count b \<le> document.count a)
     (sort_key (\<lambda>d. - document.count d) ds)"
proof -
  have "sorted (map (\<lambda>d. - document.count d) (sort_key (\<lambda>d. - document.count d) ds))"
    by (rule sorted_sort_key)
  then show ?thesis by (simp add: sorted_wrt_map)
qed

text \<open>
  C4. After a successful listing \<open>getTrendingMovies\<close> returns the listed documents,
  each mapped to the display type with \<open>id\<close> taken from \<open>movie_id\<close> and \<open>count\<close>,
  \<open>poster_url\<close>, \<open>searchTerm\<close> and \<open>title\<close> copied. On the reference collection, which
  honours the two queries the function sends, these are at most 5 stored documents
  (all of them when there are fewer), in descending order of \<open>count\<close>, and no document
  left out has a higher count than one returned.
\<close>

theorem getTrendingMovies_top_five:
  "(listDocuments db [OrderDesc ''count'', Limit 5] s = (Inr documents, s') \<longrightarrow>
      getTrendingMovies db (s, con) =
        (Fulfilled
           (map (\<lambda>doc. \<lparr> TrendingMovies.id' = document.movie_id doc,
                          count = document.count doc,
                          poster_url = document.poster_url doc,
                          searchTerm = document.searchTerm doc,
                          title = document.title doc \<rparr>) documents),
         s', con)) \<and>
   (\<exists>docs. getTrendingMovies collection (ds, con) =
             (Fulfilled
                (map (\<lambda>doc. \<lparr> TrendingMovies.id' = document.movie_id doc,
                               count = document.count doc,
                               poster_url = document.poster_url doc,
                               searchTerm = document.searchTerm doc,
                               title = document.title doc \<rparr>) docs),
              ds, con)
         \<and> length docs = min 5 (length ds)
         \<and> sorted_wrt (\<lambda>a b. document.count b \<le> document.count a) docs
         \<and> set docs \<subseteq> set ds
         \<and> (\<forall>d \<in> set ds. d \<notin> set docs \<longrightarrow>
               (\<forall>e \<in> set docs. document.count d \<le> document.count e)))"
proof (intro conjI impI)
  assume "listDocuments db [OrderDesc ''count'', Limit 5] s = (Inr documents, s')"
  then have "getTrendingMovies db (s, con) = (Fulfilled (map to_trending documents), s', con)"
    by (rule getTrendingMovies_listed)
  then show "getTrendingMovies db (s, con) =
        (Fulfilled
           (map (\<lambda>doc. \<lparr> TrendingMovies.id' = document.movie_id doc,
                          count = document.count doc,
                          poster_url = document.poster_url doc,
                          searchTerm = document.searchTerm doc,
                          title = document.title doc \<rparr>) documents),
         s', con)"
    by (simp add: to_trending_def)
next
  let ?sorted = "sort_key (\<lambda>d. - document.count d) ds"
  let ?docs = "take 5 ?sorted"
  have run: "getTrendingMovies collection (ds, con) = (Fulfilled (map to_trending ?docs), ds, con)"
    by (simp add: collection_list_trending)
  have shape: "map to_trending ?docs =
      map (\<lambda>doc. \<lparr> TrendingMovies.id' = document.movie_id doc,
                    count = document.count doc,
                    poster_url = document.poster_url doc,
                    searchTerm = document.searchTerm doc,
                    title = document.title doc \<rparr>) ?docs"
    by (simp add: to_trending_def)
  have len: "length ?docs = min 5 (length ds)" by simp
  have all: "sorted_wrt (\<lambda>a b. document.count b \<le> document.count a) (?docs @ drop 5 ?sorted)"
    using sorted_by_count_desc [of ds] by simp
  then have desc: "sorted_wrt (\<lambda>a b. document.count b \<le> document.count a) ?docs"
    and above: "\<forall>e \<in> set ?docs. \<forall>d \<in> set (drop 5 ?sorted). document.count d \<le> document.count e"
    unfolding sorted_wrt_append by blast+
  have sub: "set ?docs \<subseteq> set ds"
    using set_take_subset [of 5 ?sorted] by simp
  have "set ds = set (?docs @ drop 5 ?sorted)" by simp
  then have parts: "set ds = set ?docs \<union> set (drop 5 ?sorted)"
    by (simp only: set_append)
  have rest: "\<forall>d \<in> set ds. d \<notin> set ?docs \<longrightarrow>
                (\<forall>e \<in> set ?docs. document.count d \<le> document.count e)"
    using above parts by blast
  from run shape len desc sub rest
  show "\<exists>docs. getTrendingMovies collection (ds, con) =
             (Fulfilled
                (map (\<lambda>doc. \<lparr> TrendingMovies.id' = document.movie_id doc,
                               count = document.count doc,
                               poster_url = document.poster_url doc,
                               searchTerm = document.searchTerm doc,
                               title = document.title doc \<rparr>) docs),
              ds, con)
         \<and> length docs = min 5 (length ds)
         \<and> sorted_wrt (\<lambda>a b. document.count b \<le> document.count a) docs
         \<and> set docs \<subseteq> set ds
         \<and> (\<forall>d \<in> set ds. d \<notin> set docs \<longrightarrow>
               (\<forall>e \<in> set docs. document.count d \<le> document.count e))"
    by (intro exI [of _ ?docs]) simp
qed

theorem getTrendingMovies_top_five_witness:
  "listDocuments collection [OrderDesc ''count'', Limit 5] shelf =
     (Inr [stored ''d2'' ''batman'' 9, stored ''d6'' ''fargo'' 9, stored ''d4'' ''dune'' 7,
         stored ''d1'' ''alien'' 4, stored ''d7'' ''gattaca'' 3],
      shelf) \<and>
   getTrendingMovies collection (shelf, []) =
     (Fulfilled
        [\<lparr> TrendingMovies.id' = 109, count = 9,
            poster_url = ''https://image.tmdb.org/t/p/w500/batman.jpg'',
            searchTerm = ''batman'', title = ''batman'' \<rparr>,
         \<lparr> TrendingMovies.id' = 109, count = 9,
            poster_url = ''https://image.tmdb.org/t/p/w500/fargo.jpg'',
            searchTerm = ''fargo'', title = ''fargo'' \<rparr>,
         \<lparr> TrendingMovies.id' = 107, count = 7,
            poster_url = ''https://image.tmdb.org/t/p/w500/dune.jpg'',
            searchTerm = ''dune'', title = ''dune'' \<rparr>,
         \<lparr> TrendingMovies.id' = 104, count = 4,
            poster_url = ''https://image.tmdb.org/t/p/w500/alien.jpg'',
            searchTerm = ''alien'', title = ''alien'' \<rparr>,
         \<lparr> TrendingMovies.id' = 103, count = 3,
            poster_url = ''https://image.tmdb.org/t/p/w500/gattaca.jpg'',
            searchTerm = ''gattaca'', title = ''gattaca'' \<rparr>],
      shelf, [])"
proof -
  have a: "listDocuments collection [OrderDesc ''count'', Limit 5] shelf =
     (Inr [stored ''d2'' ''batman'' 9, stored ''d6'' ''fargo'' 9, stored ''d4'' ''dune'' 7,
         stored ''d1'' ''alien'' 4, stored ''d7'' ''gattaca'' 3],
      shelf)"
    by (simp add: collection_def collection_list_def integer_attribute_def shelf_def stored_def)
  from getTrendingMovies_top_five
         [where db = collection and s = shelf and s' = shelf and con = "[]" and ds = shelf
            and documents = "[stored ''d2'' ''batman'' 9, stored ''d6'' ''fargo'' 9, stored ''d4'' ''dune'' 7,
         stored ''d1'' ''alien'' 4, stored ''d7'' ''gattaca'' 3]"]
    a
  have "getTrendingMovies collection (shelf, []) =
     (Fulfilled
        (map (\<lambda>doc. \<lparr> TrendingMovies.id' = document.movie_id doc,
                       count = document.count doc,
                       poster_url = document.poster_url doc,
                       searchTerm = document.searchTerm doc,
                       title = document.title doc \<rparr>)
           [stored ''d2'' ''batman'' 9, stored ''d6'' ''fargo'' 9, stored ''d4'' ''dune'' 7,
         stored ''d1'' ''alien'' 4, stored ''d7'' ''gattaca'' 3]),
      shelf, [])"
    by blast
  then have "getTrendingMovies collection (shelf, []) =
     (Fulfilled
        [\<lparr> TrendingMovies.id' = 109, count = 9,
            poster_url = ''https://image.tmdb.org/t/p/w500/batman.jpg'',
            searchTerm = ''batman'', title = ''batman'' \<rparr>,
         \<lparr> TrendingMovies.id' = 109, count = 9,
            poster_url = ''https://image.tmdb.org/t/p/w500/fargo.jpg'',
            searchTerm = ''fargo'', title = ''fargo'' \<rparr>,
         \<lparr> TrendingMovies.id' = 107, count = 7,
            poster_url = ''https://image.tmdb.org/t/p/w500/dune.jpg'',
            searchTerm = ''dune'', title = ''dune'' \<rparr>,
         \<lparr> TrendingMovies.id' = 104, count = 4,
            poster_url = ''https://image.tmdb.org/t/p/w500/alien.jpg'',
            searchTerm = ''alien'', title = ''alien'' \<rparr>,
         \<lparr> TrendingMovies.id' = 103, count = 3,
            poster_url = ''https://image.tmdb.org/t/p/w500/gattaca.jpg'',
            searchTerm = ''gattaca'', title = ''gattaca'' \<rparr>],
      shelf, [])"
    by (simp add: stored_def)
  with a show ?thesis by simp
qed

text \<open>
  C5. When the listing throws, \<open>getTrendingMovies\<close> returns the empty list: the promise
  is fulfilled with \<open>[]\<close> and the exception is logged.
\<close>

theorem getTrendingMovies_listing_fails:
  assumes "listDocuments db [OrderDesc ''count'', Limit 5] s = (Inl e, s')"
  shows "getTrendingMovies db (s, con) =
           (Fulfilled [], s', con @ [(''Error fetching trending movies:'', e)])"
  using assms by simp

theorem getTrendingMovies_listing_fails_witness:
  "listDocuments unreachable [OrderDesc ''count'', Limit 5] () =
     (Inl (Exception ''Network request failed''), ()) \<and>
   getTrendingMovies unreachable ((), []) =
     (Fulfilled [], (),
      [(''Error fetching trending movies:'', Exception ''Network request failed'')])"
proof -
  have a: "listDocuments unreachable [OrderDesc ''count'', Limit 5] () =
     (Inl (Exception ''Network request failed''), ())"
    by (simp add: unreachable_def)
  show ?thesis
    using a getTrendingMovies_listing_fails [OF a, of "[]"] by simp
qed

end
